theory Spec2Isabelle
  imports Main
begin

section \<open>Constants\<close>

text \<open>The header keys, metric names and the default publish timeout of the constants module.\<close>

definition HEADER_DEAD_LETTER :: string where
  "HEADER_DEAD_LETTER = ''x-death''"

definition HEADER_ORIGINAL_CHANNEL :: string where
  "HEADER_ORIGINAL_CHANNEL = ''x-original-channel''"

definition HEADER_ORIGINAL_GROUP :: string where
  "HEADER_ORIGINAL_GROUP = ''x-original-group''"

definition HEADER_ERROR_MESSAGE :: string where
  "HEADER_ERROR_MESSAGE = ''x-error-message''"

definition METRIC_CHANNELS_MESSAGES_ERRORS_TOTAL :: string where
  "METRIC_CHANNELS_MESSAGES_ERRORS_TOTAL = ''moleculer.channels.messages.errors.total''"

definition METRIC_CHANNELS_MESSAGES_RETRIES_TOTAL :: string where
  "METRIC_CHANNELS_MESSAGES_RETRIES_TOTAL = ''moleculer.channels.messages.retries.total''"

definition METRIC_CHANNELS_MESSAGES_DEAD_LETTERING_TOTAL :: string where
  "METRIC_CHANNELS_MESSAGES_DEAD_LETTERING_TOTAL =
     ''moleculer.channels.messages.deadLettering.total''"

definition DEFAULT_PUBLISH_TIMEOUT :: int where
  "DEFAULT_PUBLISH_TIMEOUT = 10000"

section \<open>Errors\<close>

text \<open>
  The adapter tells errors apart with two \<open>instanceof\<close> tests only. The framework's
  retryable error class extends its base error class (the source says so at the test), so
  an error is in exactly one of three positions: outside the framework's hierarchy (a plain
  \<open>Error\<close>, a \<open>TypeError\<close>, ...), a framework error that is not retryable, or a
  retryable framework error.
\<close>

datatype error_class = PlainError | MoleculerError | MoleculerRetryableError

record js_error =
  err_class :: error_class
  message :: string

definition instanceof_MoleculerError :: "js_error \<Rightarrow> bool" where
  "instanceof_MoleculerError e = (err_class e \<noteq> PlainError)"

definition instanceof_MoleculerRetryableError :: "js_error \<Rightarrow> bool" where
  "instanceof_MoleculerRetryableError e = (err_class e = MoleculerRetryableError)"

section \<open>JavaScript values the adapter tests for truthiness\<close>

text \<open>
  An optional string is \<open>None\<close> when the property is undefined. The empty string is
  falsy, as undefined is.
\<close>

definition truthy :: "string option \<Rightarrow> bool" where
  "truthy s = (case s of None \<Rightarrow> False | Some v \<Rightarrow> v \<noteq> [])"

text \<open>String interpolation of an optional string: undefined prints as its name.\<close>

definition interpolate :: "string option \<Rightarrow> string" where
  "interpolate s = (case s of None \<Rightarrow> ''undefined'' | Some v \<Rightarrow> v)"

section \<open>The adapter's state\<close>

text \<open>
  The fields of the adapter that the modelled methods read or write. \<open>url\<close> is
  \<open>Some us\<close> when the configured URL is an array (a connection string is split at
  \<open>;\<close> into one by the constructor) and \<open>None\<close> otherwise. Numbers are modelled as
  unbounded integers; the attempt counter stays far below the range where a double stops
  counting.
\<close>

record adapter =
  url :: "string list option"
  connectAttempt :: nat
  stopping :: bool
  connected :: bool
  writeBufferReady :: bool
  assertedExchanges :: "string set"

section \<open>Connecting: endpoint selection\<close>

text \<open>
  The first lines of \<open>tryConnect\<close>: with an array of URLs the attempt counter is
  incremented and the URL at index \<open>(connectAttempt - 1) % length\<close> is taken. Reading an
  array at an index it does not have gives undefined (\<open>None\<close>); that happens only for the
  empty array, where the remainder is not a number. The counter is incremented before the
  connection is awaited, so a failed attempt counts as well.
\<close>

definition tryConnect_uri :: "adapter \<Rightarrow> string option \<times> adapter" where
  "tryConnect_uri a =
     (case url a of
        Some uri \<Rightarrow>
          (let a' = a\<lparr>connectAttempt := connectAttempt a + 1\<rparr>;
               urlIndex = (connectAttempt a' - 1) mod length uri
           in ((if uri = [] then None else Some (uri ! urlIndex)), a'))
      | None \<Rightarrow> (None, a))"

text \<open>The URLs selected by \<open>n\<close> successive connection attempts, oldest first.\<close>

fun attempts :: "nat \<Rightarrow> adapter \<Rightarrow> string option list" where
  "attempts 0 a = []"
| "attempts (Suc n) a = (case tryConnect_uri a of (u, a') \<Rightarrow> u # attempts n a')"

section \<open>Messages, channels and the calls the adapter makes\<close>

text \<open>
  A header value is a string, undefined, or the broker's death history: the list of the
  \<open>count\<close> fields of its entries, in the order of the array.
\<close>

datatype hval = HString string | HUndefined | HDeaths "int list"

type_synonym headers = "string \<rightharpoonup> hval"

text \<open>
  A consumed message: \<open>content\<close>, the properties \<open>correlationId\<close> and \<open>headers\<close>
  (either may be undefined) and the fields \<open>consumerTag\<close> and \<open>deliveryTag\<close>.
\<close>

record amqp_message =
  content :: string
  correlationId :: "string option"
  headers :: "headers option"
  consumerTag :: string
  deliveryTag :: nat

record dead_lettering =
  enabled :: "bool option"
  queueName :: "string option"
  exchangeName :: "string option"

text \<open>
  The options of a queue that the adapter reads or sets: the \<open>arguments\<close> table and the
  dead-letter target and message time-to-live.
\<close>

record queue_options =
  arguments :: "string \<rightharpoonup> string"
  deadLetterExchange :: "string option"
  deadLetterRoutingKey :: "string option"
  messageTtl :: "int option"

text \<open>
  A channel definition. \<open>maxRetries\<close> is \<open>None\<close> when null or undefined. The handler
  gets the decoded payload and the message, and its promise resolves (\<open>None\<close>) or
  rejects with an error. \<open>amqp_queueOptions\<close> is \<open>chan.amqp.queueOptions\<close>, \<open>None\<close>
  when the channel has none.
\<close>

record 'p channel =
  chan_id :: string
  name :: string
  group :: "string option"
  maxRetries :: "int option"
  deadLettering :: dead_lettering
  unsubscribing :: bool
  handler :: "'p \<Rightarrow> amqp_message \<Rightarrow> js_error option"
  amqp_queueOptions :: "queue_options option"

text \<open>The options of a published message.\<close>

record message_options =
  persistent :: "bool option"
  expiration :: "int option"
  priority :: "int option"
  mo_correlationId :: "string option"
  mo_headers :: "headers option"
  timeout :: "int option"

text \<open>A number that may be NaN (the increment of undefined).\<close>

datatype jsnum = Num int | NaN

datatype log_level = LDebug | LWarn | LError

datatype log_text =
    Received
  | InternalErrorMoving
  | InternalErrorDropping
  | ProcessingError
  | NoRetriesMoving
  | NoRetriesDrop
  | TooManyTimesMoving jsnum
  | TooManyTimesDrop jsnum
  | Requeue jsnum
  | PollingWriteBuffer
  | QueueTypeOverride string

text \<open>
  What a method does to the outside, in the order of the calls: the tracker of active
  messages, the broker channel (\<open>ack\<close>, \<open>nack\<close> with its two flags, \<open>publish\<close> with
  exchange, routing key, content and options, \<open>assertExchange\<close> with name and type,
  \<open>assertQueue\<close> with name and options, \<open>bindQueue\<close> with queue, exchange and routing
  key, \<open>consume\<close>), the serializer, the metrics and the logger. The calls on the broker
  channel, the metrics and the logger are taken to return normally, and the promises of
  the broker channel to resolve.
\<close>

datatype effect =
    InitActive string
  | AddActive string "string list"
  | RemoveActive string "string list"
  | Ack nat
  | Nack nat bool bool
  | Publish string "string option" string message_options
  | AssertExchange string string
  | AssertQueue "string option" queue_options
  | BindQueue "string option" string string
  | Consume string
  | Serialize string
  | MetricsIncrement string
  | Log log_level log_text




text \<open>How an asynchronous method ends: its promise resolves or rejects.\<close>

datatype completion = Resolved | Rejected

section \<open>Moving a message to the dead-letter queue\<close>

definition dl_enabled :: "'p channel \<Rightarrow> bool" where
  "dl_enabled chan = (enabled (deadLettering chan) = Some True)"

text \<open>\<open>chan.deadLettering.exchangeName || ""\<close>\<close>

definition dl_exchange_or_empty :: "'p channel \<Rightarrow> string" where
  "dl_exchange_or_empty chan =
     (case exchangeName (deadLettering chan) of None \<Rightarrow> [] | Some e \<Rightarrow> e)"

text \<open>
  The three provenance headers of the object literal, before the message's own headers
  are spread over them. An undefined group is stored as undefined.
\<close>

definition provenance_headers :: "'p channel \<Rightarrow> js_error \<Rightarrow> headers" where
  "provenance_headers chan err =
     [HEADER_ORIGINAL_CHANNEL \<mapsto> HString (name chan),
      HEADER_ORIGINAL_GROUP \<mapsto> (case group chan of None \<Rightarrow> HUndefined | Some g \<Rightarrow> HString g),
      HEADER_ERROR_MESSAGE \<mapsto> HString (message err)]"

definition headers_only :: "headers \<Rightarrow> message_options" where
  "headers_only h = \<lparr>persistent = None, expiration = None, priority = None,
     mo_correlationId = None, mo_headers = Some h, timeout = None\<rparr>"

text \<open>\<open>msg.properties && msg.properties.headers ? msg.properties.headers : {}\<close>\<close>

definition own_headers :: "amqp_message \<Rightarrow> headers" where
  "own_headers msg = (case headers msg of Some h \<Rightarrow> h | None \<Rightarrow> Map.empty)"

text \<open>
  The publish to the dead-letter exchange with the dead-letter queue's name as routing
  key, the metric, and the acknowledgement of the original message. In the object literal
  the message's own headers are spread after the three provenance headers, so on a key
  that both have the message's own value stays.
\<close>

definition moveToDeadLetter :: "'p channel \<Rightarrow> amqp_message \<Rightarrow> js_error \<Rightarrow> effect list" where
  "moveToDeadLetter chan msg err =
     [Publish (dl_exchange_or_empty chan) (queueName (deadLettering chan)) (content msg)
        (headers_only (provenance_headers chan err ++ own_headers msg)),
      MetricsIncrement METRIC_CHANNELS_MESSAGES_DEAD_LETTERING_TOTAL,
      Ack (deliveryTag msg)]"

section \<open>The consumer handler\<close>

text \<open>Decimal digits of a delivery tag, for the synthetic message id.\<close>

fun show_nat :: "nat \<Rightarrow> string" where
  "show_nat n =
     (if n < 10 then [''0123456789'' ! n]
      else show_nat (n div 10) @ [''0123456789'' ! (n mod 10)])"

declare show_nat.simps [simp del]

definition message_id :: "amqp_message \<Rightarrow> string" where
  "message_id msg =
     (if truthy (correlationId msg) then interpolate (correlationId msg)
      else consumerTag msg @ '':'' @ show_nat (deliveryTag msg))"

text \<open>
  \<open>xDeath ? xDeath[0].count : 0\<close> on \<open>msg.properties.headers[x-death]\<close>. Reading a
  property of undefined throws (\<open>None\<close>): when the message has no headers, and when the
  death history is an empty array. A non-empty string is truthy and its first character
  has no \<open>count\<close>; the undefined that results increments to NaN.
\<close>

definition read_redeliveryCount :: "amqp_message \<Rightarrow> jsnum option" where
  "read_redeliveryCount msg =
     (case headers msg of
        None \<Rightarrow> None
      | Some h \<Rightarrow>
          (case h HEADER_DEAD_LETTER of
             None \<Rightarrow> Some (Num 0)
           | Some HUndefined \<Rightarrow> Some (Num 0)
           | Some (HString s) \<Rightarrow> (if s = [] then Some (Num 0) else Some NaN)
           | Some (HDeaths ds) \<Rightarrow> (case ds of [] \<Rightarrow> None | d # _ \<Rightarrow> Some (Num d))))"

fun js_incr :: "jsnum \<Rightarrow> jsnum" where
  "js_incr (Num n) = Num (n + 1)"
| "js_incr NaN = NaN"

fun js_ge :: "jsnum \<Rightarrow> int \<Rightarrow> bool" where
  "js_ge (Num n) m = (n \<ge> m)"
| "js_ge NaN m = False"

text \<open>\<open>!chan.maxRetries\<close> and \<open>chan.maxRetries > 0\<close>\<close>

definition no_maxRetries :: "'p channel \<Rightarrow> bool" where
  "no_maxRetries chan = (case maxRetries chan of None \<Rightarrow> True | Some n \<Rightarrow> n = 0)"

definition maxRetries_positive :: "'p channel \<Rightarrow> bool" where
  "maxRetries_positive chan = (case maxRetries chan of None \<Rightarrow> False | Some n \<Rightarrow> n > 0)"

definition reached_maxRetries :: "'p channel \<Rightarrow> jsnum \<Rightarrow> bool" where
  "reached_maxRetries chan redeliveryCount =
     (case maxRetries chan of None \<Rightarrow> False | Some n \<Rightarrow> js_ge redeliveryCount n)"

text \<open>
  The \<open>catch\<close> block of the handler, for the message with id \<open>mid\<close> and the error
  caught. It rejects where reading the death history throws.
\<close>

definition on_error ::
  "'p channel \<Rightarrow> amqp_message \<Rightarrow> string \<Rightarrow> js_error \<Rightarrow> completion \<times> effect list" where
  "on_error chan msg mid err =
     (let caught = [RemoveActive (chan_id chan) [mid],
                    MetricsIncrement METRIC_CHANNELS_MESSAGES_ERRORS_TOTAL]
      in
      if instanceof_MoleculerError err \<and> \<not> instanceof_MoleculerRetryableError err then
        (if dl_enabled chan
         then (Resolved, caught @ [Log LError InternalErrorMoving] @ moveToDeadLetter chan msg err)
         else (Resolved, caught @ [Log LError InternalErrorDropping, Ack (deliveryTag msg)]))
      else if no_maxRetries chan then
        (if dl_enabled chan
         then (Resolved, caught @ [Log LWarn ProcessingError, Log LDebug NoRetriesMoving]
                 @ moveToDeadLetter chan msg err)
         else (Resolved, caught @ [Log LWarn ProcessingError, Log LError NoRetriesDrop,
                 Ack (deliveryTag msg)]))
      else
        (case read_redeliveryCount msg of
           None \<Rightarrow> (Rejected, caught @ [Log LWarn ProcessingError])
         | Some count \<Rightarrow>
             (let redeliveryCount = js_incr count in
              if maxRetries_positive chan \<and> reached_maxRetries chan redeliveryCount then
                (if dl_enabled chan
                 then (Resolved, caught @ [Log LWarn ProcessingError,
                         Log LWarn (TooManyTimesMoving redeliveryCount)]
                         @ moveToDeadLetter chan msg err)
                 else (Resolved, caught @ [Log LWarn ProcessingError,
                         Log LError (TooManyTimesDrop redeliveryCount), Ack (deliveryTag msg)]))
              else
                (Resolved, caught @ [Log LWarn ProcessingError,
                   Log LWarn (Requeue redeliveryCount),
                   MetricsIncrement METRIC_CHANNELS_MESSAGES_RETRIES_TOTAL,
                   Nack (deliveryTag msg) False False]))))"

text \<open>
  The function that \<open>createConsumerHandler\<close> returns for a channel, applied to a message.
  The serializer's \<open>deserialize\<close> returns the payload or throws.
\<close>

definition createConsumerHandler ::
  "(string \<Rightarrow> js_error + 'p) \<Rightarrow> 'p channel \<Rightarrow> amqp_message \<Rightarrow> completion \<times> effect list" where
  "createConsumerHandler deserialize chan msg =
     (if unsubscribing chan then (Resolved, [])
      else
        (let mid = message_id msg;
             begun = [Log LDebug Received, AddActive (chan_id chan) [mid]]
         in
         case deserialize (content msg) of
           Inl err \<Rightarrow> (case on_error chan msg mid err of (c, es) \<Rightarrow> (c, begun @ es))
         | Inr payload \<Rightarrow>
             (case handler chan payload msg of
                Some err \<Rightarrow> (case on_error chan msg mid err of (c, es) \<Rightarrow> (c, begun @ es))
              | None \<Rightarrow>
                  (Resolved, begun @ [Ack (deliveryTag msg), RemoveActive (chan_id chan) [mid]]))))"

section \<open>The tracker of active messages\<close>






section \<open>Redelivery through the retry queue\<close>





text \<open>An error that the handler's test sends to the non-retryable branch.\<close>

definition non_retryable :: "js_error \<Rightarrow> bool" where
  "non_retryable err =
     (instanceof_MoleculerError err \<and> \<not> instanceof_MoleculerRetryableError err)"

text \<open>
  The error the \<open>try\<close> block of the handler ends with, if any: the one the
  deserializer throws, or else the one the channel's handler rejects with.
\<close>

definition caught_error ::
  "(string \<Rightarrow> js_error + 'p) \<Rightarrow> 'p channel \<Rightarrow> amqp_message \<Rightarrow> js_error option" where
  "caught_error deserialize chan msg =
     (case deserialize (content msg) of
        Inl err \<Rightarrow> Some err
      | Inr payload \<Rightarrow> handler chan payload msg)"




section \<open>The adapter's options\<close>

text \<open>
  The options that \<open>subscribe\<close> and \<open>publish\<close> read from \<open>this.opts\<close>:
  \<open>maxRetries\<close>, \<open>deadLettering\<close>, \<open>retryInterval\<close>, and under \<open>amqp\<close> the
  \<open>queueOptions\<close>, the \<open>messageOptions\<close> and the \<open>enabled\<close> flag of
  \<open>publishAssertExchange\<close>. \<open>prefix\<close> is what the base adapter puts in front of a
  topic name.
\<close>

record adapter_opts =
  opt_maxRetries :: "int option"
  opt_deadLettering :: dead_lettering
  opt_retryInterval :: "int option"
  opt_queueOptions :: "queue_options option"
  opt_messageOptions :: message_options
  opt_publishAssertExchange :: "bool option"
  prefix :: string

text \<open>
  The constructor's default for the message options: the timeout is
  \<open>DEFAULT_PUBLISH_TIMEOUT\<close> unless the caller configured one.
\<close>

definition constructor_messageOptions :: "message_options \<Rightarrow> message_options" where
  "constructor_messageOptions mo =
     mo\<lparr>timeout := (case timeout mo of None \<Rightarrow> Some DEFAULT_PUBLISH_TIMEOUT | Some t \<Rightarrow> Some t)\<rparr>"

text \<open>
  \<open>defaultsDeep\<close> on two values of one property: the first unless it is undefined.
\<close>

definition defaults :: "'a option \<Rightarrow> 'a option \<Rightarrow> 'a option" where
  "defaults x d = (case x of None \<Rightarrow> d | Some v \<Rightarrow> Some v)"

text \<open>
  \<open>defaultsDeep\<close> on two header values and on two header tables. An undefined value
  is filled from the default. Two death histories are arrays and are merged index by
  index: the entries of the first stay, and the default supplies the entries beyond its
  length. A key that only one table has keeps its value.
\<close>

fun defaults_hval :: "hval \<Rightarrow> hval \<Rightarrow> hval" where
  "defaults_hval HUndefined d = d"
| "defaults_hval (HDeaths hs) (HDeaths gs) = HDeaths (hs @ drop (length hs) gs)"
| "defaults_hval v d = v"

definition defaults_headers :: "headers option \<Rightarrow> headers option \<Rightarrow> headers option" where
  "defaults_headers x d =
     (case x of
        None \<Rightarrow> d
      | Some h \<Rightarrow>
          (case d of
             None \<Rightarrow> Some h
           | Some g \<Rightarrow>
               Some (\<lambda>k. case h k of
                            None \<Rightarrow> g k
                          | Some v \<Rightarrow>
                              (case g k of
                                 None \<Rightarrow> Some v
                               | Some w \<Rightarrow> Some (defaults_hval v w)))))"

section \<open>Polling\<close>

text \<open>
  \<open>poll(fn, timeout, interval)\<close> of the utilities. \<open>fn t\<close> is what the condition
  returns when it is called at time \<open>t\<close> (milliseconds, as \<open>Date.now()\<close> reads them). The
  first check runs at once, at the time of the call; a check that finds the condition
  false before \<open>endTime\<close> schedules the next one \<open>interval\<close> milliseconds later, and
  the timer is taken to fire exactly then (the runtime raises a delay below 1 to 1). The
  result is whether the promise resolves; \<open>timeout || 2000\<close> and \<open>interval || 1\<close> replace
  an undefined or zero argument.
\<close>

function poll_check :: "(int \<Rightarrow> bool) \<Rightarrow> int \<Rightarrow> int \<Rightarrow> int \<Rightarrow> bool" where
  "poll_check fn endTime interval t =
     (if fn t then True
      else if t < endTime then poll_check fn endTime interval (t + max 1 interval)
      else False)"
  by pat_completeness auto
termination
  by (relation "measure (\<lambda>(fn, endTime, interval, t). nat (endTime - t))") auto

declare poll_check.simps [simp del]

definition or_default :: "int option \<Rightarrow> int \<Rightarrow> int" where
  "or_default x d = (case x of None \<Rightarrow> d | Some v \<Rightarrow> if v = 0 then d else v)"

definition poll :: "(int \<Rightarrow> bool) \<Rightarrow> int option \<Rightarrow> int option \<Rightarrow> int \<Rightarrow> bool" where
  "poll fn tmo interval now =
     poll_check fn (now + or_default tmo 2000) (or_default interval 1) now"

section \<open>Publishing\<close>

text \<open>The options of one \<open>publish\<close> call.\<close>

record publish_opts =
  po_persistent :: "bool option"
  ttl :: "int option"
  po_priority :: "int option"
  po_correlationId :: "string option"
  po_headers :: "headers option"
  po_timeout :: "int option"
  raw :: bool
  routingKey :: "string option"
  po_publishAssertExchange :: "bool option"

text \<open>
  What one call meets outside the adapter: the time of the call, the value of the
  write-buffer-ready flag at each later time (a drain event sets it, another publish may
  clear it again), and what the broker channel's \<open>publish\<close> returns.
\<close>

record publish_env =
  now :: int
  flag_at :: "int \<Rightarrow> bool"
  send_result :: bool

definition messageOptions_of :: "adapter_opts \<Rightarrow> publish_opts \<Rightarrow> message_options" where
  "messageOptions_of ao opts =
     \<lparr>persistent = defaults (po_persistent opts) (persistent (opt_messageOptions ao)),
      expiration = defaults (ttl opts) (expiration (opt_messageOptions ao)),
      priority = defaults (po_priority opts) (priority (opt_messageOptions ao)),
      mo_correlationId = defaults (po_correlationId opts) (mo_correlationId (opt_messageOptions ao)),
      mo_headers = defaults_headers (po_headers opts) (mo_headers (opt_messageOptions ao)),
      timeout = defaults (po_timeout opts) (timeout (opt_messageOptions ao))\<rparr>"

definition publishAssertExchange_enabled :: "adapter_opts \<Rightarrow> publish_opts \<Rightarrow> bool" where
  "publishAssertExchange_enabled ao opts =
     (defaults (defaults (po_publishAssertExchange opts) (opt_publishAssertExchange ao))
        (Some False) = Some True)"

definition not_connected_error :: js_error where
  "not_connected_error = \<lparr>err_class = MoleculerRetryableError,
     message = ''Adapter not yet connected. Skipping publishing.''\<rparr>"

definition write_buffer_full_error :: js_error where
  "write_buffer_full_error = \<lparr>err_class = MoleculerError,
     message = ''AMQP publish error: write buffer full''\<rparr>"

text \<open>\<open>isWriteBufferReady\<close>, called at time \<open>t\<close> during a publish of adapter \<open>a\<close>.\<close>

definition isWriteBufferReady :: "publish_env \<Rightarrow> adapter \<Rightarrow> int \<Rightarrow> bool" where
  "isWriteBufferReady env a t = (if t \<le> now env then writeBufferReady a else flag_at env t)"

text \<open>
  \<open>publish(channelName, payload, opts)\<close>: the error thrown or a normal return, the
  adapter afterwards, and the calls made. The payload is taken as a string, which the
  serializer encodes unless \<open>raw\<close> is set.
\<close>

definition publish ::
  "adapter_opts \<Rightarrow> (string \<Rightarrow> string) \<Rightarrow> publish_env \<Rightarrow> adapter \<Rightarrow> string \<Rightarrow> string
   \<Rightarrow> publish_opts \<Rightarrow> (js_error + unit) \<times> adapter \<times> effect list" where
  "publish ao serialize env a channelName payload opts =
     (if stopping a then (Inr (), a, [])
      else if \<not> connected a then (Inl not_connected_error, a, [])
      else
        (let messageOptions = messageOptions_of ao opts;
             encoded = (if raw opts then [] else [Serialize payload]);
             data = (if raw opts then payload else serialize payload);
             asserting = (publishAssertExchange_enabled ao opts
                          \<and> channelName \<notin> assertedExchanges a);
             a1 = (if asserting
                   then a\<lparr>assertedExchanges := insert channelName (assertedExchanges a)\<rparr>
                   else a);
             asserted = (if asserting then [AssertExchange channelName ''fanout''] else []);
             send = Publish channelName
                      (Some (if truthy (routingKey opts) then interpolate (routingKey opts) else []))
                      data messageOptions
         in
         if isWriteBufferReady env a1 (now env) then
           (Inr (), a1\<lparr>writeBufferReady := send_result env\<rparr>, encoded @ asserted @ [send])
         else if poll (isWriteBufferReady env a1) (timeout messageOptions) (Some 1) (now env) then
           (Inr (), a1\<lparr>writeBufferReady := send_result env\<rparr>,
            encoded @ asserted @ [Log LDebug PollingWriteBuffer, send])
         else
           (Inl write_buffer_full_error, a1,
            encoded @ asserted @ [Log LDebug PollingWriteBuffer])))"

section \<open>Subscribing\<close>

text \<open>
  Modelled from the spec: the base adapter's \<open>addPrefixTopic\<close>, whose source is not
  part of the files at hand. The spec says that the dead-letter queue and exchange names
  are resolved (prefixed) at subscribe time; the model puts the adapter's prefix in front
  of a name and leaves an undefined name undefined.
\<close>

definition addPrefixTopic :: "adapter_opts \<Rightarrow> string option \<Rightarrow> string option" where
  "addPrefixTopic ao topicName =
     (case topicName of None \<Rightarrow> None | Some t \<Rightarrow> Some (prefix ao @ t))"

text \<open>The three names that \<open>subscribe\<close> computes for a channel.\<close>

definition queueName_of :: "'p channel \<Rightarrow> string" where
  "queueName_of chan =
     (if truthy (group chan) then interpolate (group chan) @ ''.'' @ name chan else name chan)"

definition retryExchangeName :: "'p channel \<Rightarrow> string" where
  "retryExchangeName chan =
     (if truthy (group chan) then interpolate (group chan) @ ''.retry''
      else queueName_of chan @ ''.retry'')"

definition retryQueueName :: "'p channel \<Rightarrow> string" where
  "retryQueueName chan = queueName_of chan @ ''.retry''"

text \<open>
  The queue options of a channel: the channel's own over the adapter's, then the queue
  type forced to \<open>quorum\<close>. \<open>queue_type_warning\<close> is the warning logged when that
  overrides a different type.
\<close>

definition no_queue_options :: queue_options where
  "no_queue_options = \<lparr>arguments = Map.empty, deadLetterExchange = None,
     deadLetterRoutingKey = None, messageTtl = None\<rparr>"

definition merged_queueOptions :: "adapter_opts \<Rightarrow> 'p channel \<Rightarrow> queue_options" where
  "merged_queueOptions ao chan =
     (let c = (case amqp_queueOptions chan of None \<Rightarrow> no_queue_options | Some q \<Rightarrow> q);
          d = (case opt_queueOptions ao of None \<Rightarrow> no_queue_options | Some q \<Rightarrow> q)
      in \<lparr>arguments = arguments d ++ arguments c,
          deadLetterExchange = defaults (deadLetterExchange c) (deadLetterExchange d),
          deadLetterRoutingKey = defaults (deadLetterRoutingKey c) (deadLetterRoutingKey d),
          messageTtl = defaults (messageTtl c) (messageTtl d)\<rparr>)"

definition queue_type_warning :: "queue_options \<Rightarrow> effect list" where
  "queue_type_warning q =
     (case arguments q ''x-queue-type'' of
        None \<Rightarrow> []
      | Some ty \<Rightarrow> if ty \<noteq> [] \<and> ty \<noteq> ''quorum'' then [Log LWarn (QueueTypeOverride ty)] else [])"

definition quorum :: "queue_options \<Rightarrow> queue_options" where
  "quorum q = q\<lparr>arguments := (arguments q)(''x-queue-type'' \<mapsto> ''quorum'')\<rparr>"

text \<open>\<open>_.defaultsDeep({}, chan.deadLettering, this.opts.deadLettering)\<close>\<close>

definition merged_deadLettering :: "adapter_opts \<Rightarrow> 'p channel \<Rightarrow> dead_lettering" where
  "merged_deadLettering ao chan =
     \<lparr>enabled = defaults (enabled (deadLettering chan)) (enabled (opt_deadLettering ao)),
      queueName = defaults (queueName (deadLettering chan)) (queueName (opt_deadLettering ao)),
      exchangeName =
        defaults (exchangeName (deadLettering chan)) (exchangeName (opt_deadLettering ao))\<rparr>"

text \<open>
  The channel as \<open>subscribe\<close> leaves it: dead-lettering merged with the adapter's,
  \<open>maxRetries\<close> taken from the adapter when the channel has none, and, when
  dead-lettering is enabled, the dead-letter queue name prefixed and the exchange name
  set to the prefixed name or, without a name, to the prefixed \<open>DEAD_LETTER\<close>.
\<close>

definition subscribed_channel :: "adapter_opts \<Rightarrow> 'p channel \<Rightarrow> 'p channel" where
  "subscribed_channel ao chan =
     (let dl = merged_deadLettering ao chan;
          chan1 = chan\<lparr>deadLettering := dl,
                      maxRetries := (case maxRetries chan of None \<Rightarrow> opt_maxRetries ao
                                     | Some n \<Rightarrow> Some n)\<rparr>
      in if enabled dl = Some True
         then chan1\<lparr>deadLettering :=
                dl\<lparr>queueName := addPrefixTopic ao (queueName dl),
                   exchangeName := addPrefixTopic ao
                     (if truthy (exchangeName dl) then exchangeName dl
                      else Some ''DEAD_LETTER'')\<rparr>\<rparr>
         else chan1)"

text \<open>
  \<open>subscribe(chan)\<close> where no call fails: the channel and the adapter afterwards, and
  the calls in order: the dead-letter queue and exchange when dead-lettering is enabled,
  the channel's exchange, the main queue (with the retry pair as its dead-letter target
  when \<open>maxRetries > 0\<close>) and its binding, the retry exchange and queue and their binding
  when \<open>maxRetries > 0\<close>, and the consumer.
\<close>

definition subscribe ::
  "adapter_opts \<Rightarrow> adapter \<Rightarrow> 'p channel \<Rightarrow> 'p channel \<times> adapter \<times> effect list" where
  "subscribe ao a chan =
     (let merged = merged_queueOptions ao chan;
          queueOptions = quorum merged;
          chan' = subscribed_channel ao chan;
          dl = deadLettering chan';
          dead_letter =
            (if dl_enabled chan'
             then AssertQueue (queueName dl) queueOptions
                  # (if truthy (exchangeName dl)
                     then [AssertExchange (interpolate (exchangeName dl)) ''fanout'',
                           BindQueue (queueName dl) (interpolate (exchangeName dl)) []]
                     else [])
             else []);
          a' = (if dl_enabled chan' \<and> truthy (exchangeName dl)
                then a\<lparr>assertedExchanges :=
                       insert (interpolate (exchangeName dl)) (assertedExchanges a)\<rparr>
                else a);
          mainQueueOptions =
            (if maxRetries_positive chan'
             then queueOptions\<lparr>deadLetterExchange := Some (retryExchangeName chan'),
                               deadLetterRoutingKey := Some (retryQueueName chan')\<rparr>
             else queueOptions);
          retryQueueOptions =
            queueOptions\<lparr>deadLetterExchange := Some (name chan'),
                          deadLetterRoutingKey := Some (queueName_of chan'),
                          messageTtl := Some (or_default (opt_retryInterval ao) 0)\<rparr>;
          retry =
            (if maxRetries_positive chan'
             then [AssertExchange (retryExchangeName chan') ''direct'',
                   AssertQueue (Some (retryQueueName chan')) retryQueueOptions,
                   BindQueue (Some (retryQueueName chan')) (retryExchangeName chan')
                     (retryQueueName chan')]
             else [])
      in (chan', a',
          queue_type_warning merged @ dead_letter
          @ [AssertExchange (name chan') ''fanout'',
             AssertQueue (Some (queueName_of chan')) mainQueueOptions,
             BindQueue (Some (queueName_of chan')) (name chan') []]
          @ retry
          @ [InitActive (chan_id chan'), Consume (queueName_of chan')]))"

section \<open>Concrete inputs\<close>

text \<open>
  A channel \<open>orders\<close> of group \<open>billing\<close> whose handler rejects every message with the
  given error, a serializer that passes the content through, and a message as the adapter
  itself publishes it: with a headers object, here without entries.
\<close>

definition failing_channel :: "int option \<Rightarrow> bool \<Rightarrow> js_error \<Rightarrow> string channel" where
  "failing_channel n dl err =
     \<lparr>chan_id = ''billing.orders'', name = ''orders'', group = Some ''billing'',
      maxRetries = n,
      deadLettering = \<lparr>enabled = Some dl, queueName = Some ''FAILED_MESSAGES'',
                         exchangeName = Some ''DEAD_LETTER''\<rparr>,
      unsubscribing = False,
      handler = (\<lambda>payload msg. Some err),
      amqp_queueOptions = None\<rparr>"

definition pass_through :: "string \<Rightarrow> js_error + string" where
  "pass_through c = Inr c"

definition fresh_message :: amqp_message where
  "fresh_message = \<lparr>content = ''{}'', correlationId = None, headers = Some Map.empty,
     consumerTag = ''ctag'', deliveryTag = 7\<rparr>"

text \<open>
  A message from a publisher that sends no headers table: \<open>msg.properties.headers\<close> is
  undefined.
\<close>

definition headerless_message :: amqp_message where
  "headerless_message = \<lparr>content = ''{}'', correlationId = None, headers = None,
     consumerTag = ''ctag'', deliveryTag = 9\<rparr>"

definition plain_error :: js_error where
  "plain_error = \<lparr>err_class = PlainError, message = ''boom''\<rparr>"


text \<open>A message that already carries an error-message header and one of its own.\<close>

definition marked_message :: amqp_message where
  "marked_message = \<lparr>content = ''{}'', correlationId = Some ''c-1'',
     headers = Some [HEADER_ERROR_MESSAGE \<mapsto> HString ''earlier'', ''trace'' \<mapsto> HString ''t1''],
     consumerTag = ''ctag'', deliveryTag = 8\<rparr>"

text \<open>
  An adapter as the constructor configures it without options of the caller, connected,
  with the write buffer full; a publish environment in which the buffer never drains and
  one in which it drains half a second after the call; publish options without entries
  and with a timeout of 3 ms.
\<close>

definition no_message_options :: message_options where
  "no_message_options = \<lparr>persistent = None, expiration = None, priority = None,
     mo_correlationId = None, mo_headers = None, timeout = None\<rparr>"

definition default_opts :: adapter_opts where
  "default_opts = \<lparr>opt_maxRetries = Some 3,
     opt_deadLettering = \<lparr>enabled = Some False, queueName = Some ''FAILED_MESSAGES'',
                             exchangeName = None\<rparr>,
     opt_retryInterval = None, opt_queueOptions = None,
     opt_messageOptions = constructor_messageOptions no_message_options,
     opt_publishAssertExchange = None, prefix = []\<rparr>"

definition saturated_adapter :: adapter where
  "saturated_adapter = \<lparr>url = Some [''amqp://localhost''], connectAttempt = 1,
     stopping = False, connected = True, writeBufferReady = False, assertedExchanges = {}\<rparr>"

definition never_drained :: publish_env where
  "never_drained = \<lparr>now = 1000, flag_at = (\<lambda>t. False), send_result = True\<rparr>"


definition plain_publish :: publish_opts where
  "plain_publish = \<lparr>po_persistent = None, ttl = None, po_priority = None,
     po_correlationId = None, po_headers = None, po_timeout = None, raw = True,
     routingKey = None, po_publishAssertExchange = None\<rparr>"


definition identity_serializer :: "string \<Rightarrow> string" where
  "identity_serializer p = p"

text \<open>
  A channel with dead-lettering enabled and no dead-letter exchange name, and adapter
  options with the prefix \<open>ns.\<close> and no exchange name either.
\<close>

definition unnamed_exchange_channel :: "string channel" where
  "unnamed_exchange_channel =
     (failing_channel (Some 3) True plain_error)
       \<lparr>deadLettering := \<lparr>enabled = Some True, queueName = Some ''FAILED_MESSAGES'',
                            exchangeName = None\<rparr>\<rparr>"

definition prefixed_opts :: adapter_opts where
  "prefixed_opts = default_opts\<lparr>prefix := ''ns.''\<rparr>"

section \<open>Endpoint selection is round robin\<close>

lemma attempts_length: "length (attempts n a) = n"
  by (induction n arbitrary: a) (auto split: prod.splits)

lemma attempts_nth:
  assumes "url a = Some us" and "us \<noteq> []" and "i < n"
  shows "attempts n a ! i = Some (us ! ((connectAttempt a + i) mod length us))"
  using assms
proof (induction n arbitrary: a i)
  case 0
  then show ?case by simp
next
  case (Suc n)
  obtain u a' where step: "tryConnect_uri a = (u, a')"
    by (cases "tryConnect_uri a")
  from step Suc.prems(1,2) have u: "u = Some (us ! (connectAttempt a mod length us))"
    and a': "url a' = Some us" "connectAttempt a' = connectAttempt a + 1"
    by (auto simp: tryConnect_uri_def Let_def)
  show ?case
  proof (cases i)
    case 0
    with step u show ?thesis by simp
  next
    case (Suc j)
    with Suc.prems(3) have "j < n" by simp
    from Suc.IH [OF a'(1) Suc.prems(2) this] a'(2) step Suc
    show ?thesis by simp
  qed
qed

text \<open>
  C6. With a list of more than one endpoint and the counter at its initial value 0, the
  \<open>k\<close>-th connection attempt (counted from 1) selects the endpoint at index
  \<open>(k - 1) mod L\<close>, whatever the outcome of the earlier attempts.
\<close>

theorem round_robin_selection:
  assumes "url a = Some us" and "1 < length us" and "connectAttempt a = 0"
    and "1 \<le> k" and "k \<le> n"
  shows "attempts n a ! (k - 1) = Some (us ! ((k - 1) mod length us))"
proof -
  from assms(2) have "us \<noteq> []" by auto
  moreover from assms(4,5) have "k - 1 < n" by simp
  ultimately show ?thesis
    using attempts_nth [OF assms(1), of "k - 1" n] assms(3) by simp
qed

theorem round_robin_selection_witness:
  "attempts 5 \<lparr>url = Some [''A'', ''B'', ''C''], connectAttempt = 0, stopping = False,
      connected = False, writeBufferReady = True, assertedExchanges = {}\<rparr> ! 3 = Some ''A''"
proof -
  have "attempts 5 \<lparr>url = Some [''A'', ''B'', ''C''], connectAttempt = 0, stopping = False,
      connected = False, writeBufferReady = True, assertedExchanges = {}\<rparr> ! (4 - 1)
     = Some ([''A'', ''B'', ''C''] ! ((4 - 1) mod length [''A'', ''B'', ''C'']))"
    by (rule round_robin_selection) simp_all
  then show ?thesis by simp
qed

section \<open>The consumer handler, branch by branch\<close>

text \<open>
  For a channel that is not unsubscribing, the handler is its \<open>catch\<close> block after the
  two opening calls when the \<open>try\<close> block throws, and four calls otherwise.
\<close>

lemma handler_unfold:
  "\<not> unsubscribing chan \<Longrightarrow>
   createConsumerHandler deserialize chan msg =
     (case caught_error deserialize chan msg of
        Some err \<Rightarrow>
          (fst (on_error chan msg (message_id msg) err),
           [Log LDebug Received, AddActive (chan_id chan) [message_id msg]]
             @ snd (on_error chan msg (message_id msg) err))
      | None \<Rightarrow>
          (Resolved, [Log LDebug Received, AddActive (chan_id chan) [message_id msg],
             Ack (deliveryTag msg), RemoveActive (chan_id chan) [message_id msg]]))"
  by (simp add: createConsumerHandler_def caught_error_def Let_def
           split: sum.splits option.splits prod.splits)



text \<open>The concrete channel and message, evaluated.\<close>

lemma ex_simps:
  "unsubscribing (failing_channel n dl err) = False"
  "caught_error pass_through (failing_channel n dl err) m = Some err"
  "dl_enabled (failing_channel n dl err) = dl"
  "maxRetries (failing_channel n dl err) = n"
  "chan_id (failing_channel n dl err) = ''billing.orders''"
  by (simp_all add: failing_channel_def caught_error_def pass_through_def dl_enabled_def)

lemma fresh_simps:
  "message_id fresh_message = ''ctag:7''"
  "deliveryTag fresh_message = 7"
  "read_redeliveryCount fresh_message = Some (Num 0)"
  by (simp_all add: fresh_message_def message_id_def truthy_def read_redeliveryCount_def
        show_nat.simps)


lemma on_error_logs:
  "(Log LError InternalErrorMoving \<in> set (snd (on_error chan msg mid err))
    \<or> Log LError InternalErrorDropping \<in> set (snd (on_error chan msg mid err)))
   = non_retryable err"
  by (auto simp: on_error_def non_retryable_def Let_def moveToDeadLetter_def
           split: option.splits)

lemma on_error_requeue:
  assumes "\<not> non_retryable err" and "maxRetries chan = Some n" and "0 < n"
    and "read_redeliveryCount msg = Some (Num c)" and "c + 1 < n"
  shows "on_error chan msg mid err =
     (Resolved,
      [RemoveActive (chan_id chan) [mid], MetricsIncrement METRIC_CHANNELS_MESSAGES_ERRORS_TOTAL,
       Log LWarn ProcessingError, Log LWarn (Requeue (Num (c + 1))),
       MetricsIncrement METRIC_CHANNELS_MESSAGES_RETRIES_TOTAL,
       Nack (deliveryTag msg) False False])"
  using assms
  by (simp add: on_error_def non_retryable_def Let_def no_maxRetries_def
        maxRetries_positive_def reached_maxRetries_def)


text \<open>
  The handler takes the non-retryable branch (the one that logs an internal error)
  exactly when the error caught is a framework error that is not a retryable framework
  error. In particular an error outside the framework's hierarchy never takes it; with
  \<open>maxRetries = n > 0\<close> and a death history that can be read and reads \<open>c\<close> with
  \<open>c + 1 < n\<close>, such an error ends in a negative acknowledgement without requeue, which
  routes the message to the retry queue.
\<close>

lemma errors_outside_hierarchy:
  assumes "\<not> unsubscribing chan"
    and "caught_error deserialize chan msg = Some err"
  shows "((Log LError InternalErrorMoving
             \<in> set (snd (createConsumerHandler deserialize chan msg))
           \<or> Log LError InternalErrorDropping
             \<in> set (snd (createConsumerHandler deserialize chan msg)))
          \<longleftrightarrow> instanceof_MoleculerError err \<and> \<not> instanceof_MoleculerRetryableError err)
       \<and> (\<not> instanceof_MoleculerError err \<longrightarrow> maxRetries chan = Some n \<longrightarrow> 0 < n
            \<longrightarrow> read_redeliveryCount msg = Some (Num c) \<longrightarrow> c + 1 < n
            \<longrightarrow> createConsumerHandler deserialize chan msg =
                  (Resolved,
                   [Log LDebug Received, AddActive (chan_id chan) [message_id msg],
                    RemoveActive (chan_id chan) [message_id msg],
                    MetricsIncrement METRIC_CHANNELS_MESSAGES_ERRORS_TOTAL,
                    Log LWarn ProcessingError, Log LWarn (Requeue (Num (c + 1))),
                    MetricsIncrement METRIC_CHANNELS_MESSAGES_RETRIES_TOTAL,
                    Nack (deliveryTag msg) False False]))"
proof -
  have "\<not> instanceof_MoleculerError err \<Longrightarrow> \<not> non_retryable err"
    by (simp add: non_retryable_def)
  then show ?thesis
    using assms on_error_logs [of chan msg "message_id msg" err]
    by (auto simp: handler_unfold on_error_requeue non_retryable_def)
qed

lemma errors_outside_hierarchy_requeued:
  "createConsumerHandler pass_through (failing_channel (Some 5) True plain_error) fresh_message
   = (Resolved,
      [Log LDebug Received, AddActive ''billing.orders'' [''ctag:7''],
       RemoveActive ''billing.orders'' [''ctag:7''],
       MetricsIncrement METRIC_CHANNELS_MESSAGES_ERRORS_TOTAL,
       Log LWarn ProcessingError, Log LWarn (Requeue (Num 1)),
       MetricsIncrement METRIC_CHANNELS_MESSAGES_RETRIES_TOTAL,
       Nack 7 False False])"
proof -
  have "\<not> instanceof_MoleculerError plain_error"
    by (simp add: plain_error_def instanceof_MoleculerError_def)
  with errors_outside_hierarchy [of "failing_channel (Some 5) True plain_error"
      pass_through fresh_message plain_error 5 0]
  show ?thesis by (simp add: ex_simps fresh_simps)
qed

text \<open>
  C9. An error outside the framework's hierarchy counts as retryable, and with
  \<open>maxRetries > 0\<close> and retries left the message is to be negatively acknowledged into
  the retry queue. For a message that arrives without a headers table the handler does
  not get there: with \<open>maxRetries = 5\<close> and no retry used, a plain error is caught, the
  message id is removed and the error counted, and then the read of the death history
  throws inside the \<open>catch\<close> block. The handler's promise rejects and the message is
  neither acknowledged nor negatively acknowledged. \<open>moveToDeadLetter\<close> guards the
  same read of the headers; the handler does not.
\<close>

theorem error_outside_hierarchy_without_headers:
  "createConsumerHandler pass_through (failing_channel (Some 5) True plain_error)
     headerless_message
   = (Rejected,
      [Log LDebug Received, AddActive ''billing.orders'' [''ctag:9''],
       RemoveActive ''billing.orders'' [''ctag:9''],
       MetricsIncrement METRIC_CHANNELS_MESSAGES_ERRORS_TOTAL,
       Log LWarn ProcessingError])"
proof -
  have id: "message_id headerless_message = ''ctag:9''"
    by (simp add: headerless_message_def message_id_def truthy_def show_nat.simps)
  have "\<not> non_retryable plain_error"
    by (simp add: non_retryable_def plain_error_def instanceof_MoleculerError_def)
  then have "on_error (failing_channel (Some 5) True plain_error) headerless_message
               ''ctag:9'' plain_error
             = (Rejected,
                [RemoveActive ''billing.orders'' [''ctag:9''],
                 MetricsIncrement METRIC_CHANNELS_MESSAGES_ERRORS_TOTAL,
                 Log LWarn ProcessingError])"
    by (simp add: on_error_def non_retryable_def Let_def no_maxRetries_def ex_simps
          read_redeliveryCount_def headerless_message_def)
  then show ?thesis
    by (simp add: handler_unfold ex_simps id)
qed

section \<open>The retry loop\<close>











section \<open>Dead-lettering\<close>

text \<open>
  C3. \<open>moveToDeadLetter\<close> publishes the content of the message as it is, with the
  dead-letter queue's name as routing key, and then acknowledges the message. The headers
  it publishes hold, at every key, the message's own header when the message has one at
  that key, and otherwise the provenance header of that key: the channel's name at
  \<open>x-original-channel\<close>, the channel's group at \<open>x-original-group\<close> and the error's
  message at \<open>x-error-message\<close>.
\<close>

theorem dead_letter_publish:
  "\<exists>H. moveToDeadLetter chan msg err =
          [Publish (dl_exchange_or_empty chan) (queueName (deadLettering chan)) (content msg)
             \<lparr>persistent = None, expiration = None, priority = None,
              mo_correlationId = None, mo_headers = Some H, timeout = None\<rparr>,
           MetricsIncrement METRIC_CHANNELS_MESSAGES_DEAD_LETTERING_TOTAL,
           Ack (deliveryTag msg)]
      \<and> (\<forall>k. H k = (case own_headers msg k of
                       Some v \<Rightarrow> Some v
                     | None \<Rightarrow>
                         (if k = HEADER_ORIGINAL_CHANNEL then Some (HString (name chan))
                          else if k = HEADER_ORIGINAL_GROUP
                            then Some (case group chan of None \<Rightarrow> HUndefined
                                       | Some g \<Rightarrow> HString g)
                          else if k = HEADER_ERROR_MESSAGE then Some (HString (message err))
                          else None)))"
proof -
  let ?H = "provenance_headers chan err ++ own_headers msg"
  have "?H k = (case own_headers msg k of
                       Some v \<Rightarrow> Some v
                     | None \<Rightarrow>
                         (if k = HEADER_ORIGINAL_CHANNEL then Some (HString (name chan))
                          else if k = HEADER_ORIGINAL_GROUP
                            then Some (case group chan of None \<Rightarrow> HUndefined
                                       | Some g \<Rightarrow> HString g)
                          else if k = HEADER_ERROR_MESSAGE then Some (HString (message err))
                          else None))" for k
    by (simp add: map_add_def provenance_headers_def HEADER_ORIGINAL_CHANNEL_def
        HEADER_ORIGINAL_GROUP_def HEADER_ERROR_MESSAGE_def split: option.splits)
  then show ?thesis
    by (intro exI [of _ ?H]) (simp add: moveToDeadLetter_def headers_only_def)
qed

theorem dead_letter_publish_witness:
  "\<exists>H. moveToDeadLetter (failing_channel (Some 5) True plain_error) marked_message plain_error =
          [Publish ''DEAD_LETTER'' (Some ''FAILED_MESSAGES'') ''{}''
             \<lparr>persistent = None, expiration = None, priority = None,
              mo_correlationId = None, mo_headers = Some H, timeout = None\<rparr>,
           MetricsIncrement METRIC_CHANNELS_MESSAGES_DEAD_LETTERING_TOTAL,
           Ack 8]
      \<and> H ''x-error-message'' = Some (HString ''earlier'')
      \<and> H ''trace'' = Some (HString ''t1'')
      \<and> H ''x-original-channel'' = Some (HString ''orders'')
      \<and> H ''x-original-group'' = Some (HString ''billing'')
      \<and> H ''other'' = None"
proof -
  from dead_letter_publish [of "failing_channel (Some 5) True plain_error" marked_message
      plain_error]
  obtain H where H: "moveToDeadLetter (failing_channel (Some 5) True plain_error)
        marked_message plain_error =
          [Publish (dl_exchange_or_empty (failing_channel (Some 5) True plain_error))
             (queueName (deadLettering (failing_channel (Some 5) True plain_error)))
             (content marked_message)
             \<lparr>persistent = None, expiration = None, priority = None,
              mo_correlationId = None, mo_headers = Some H, timeout = None\<rparr>,
           MetricsIncrement METRIC_CHANNELS_MESSAGES_DEAD_LETTERING_TOTAL,
           Ack (deliveryTag marked_message)]"
    and look: "\<And>k. H k = (case own_headers marked_message k of
                       Some v \<Rightarrow> Some v
                     | None \<Rightarrow>
                         (if k = HEADER_ORIGINAL_CHANNEL
                          then Some (HString (name (failing_channel (Some 5) True plain_error)))
                          else if k = HEADER_ORIGINAL_GROUP
                            then Some (case group (failing_channel (Some 5) True plain_error) of
                                         None \<Rightarrow> HUndefined | Some g \<Rightarrow> HString g)
                          else if k = HEADER_ERROR_MESSAGE
                            then Some (HString (message plain_error))
                          else None))"
    by blast
  have own: "own_headers marked_message
     = [HEADER_ERROR_MESSAGE \<mapsto> HString ''earlier'', ''trace'' \<mapsto> HString ''t1'']"
    by (simp add: own_headers_def marked_message_def)
  have ch: "dl_exchange_or_empty (failing_channel (Some 5) True plain_error) = ''DEAD_LETTER''"
    "queueName (deadLettering (failing_channel (Some 5) True plain_error))
       = Some ''FAILED_MESSAGES''"
    "name (failing_channel (Some 5) True plain_error) = ''orders''"
    "group (failing_channel (Some 5) True plain_error) = Some ''billing''"
    "content marked_message = ''{}''" "deliveryTag marked_message = 8"
    by (simp_all add: failing_channel_def dl_exchange_or_empty_def marked_message_def)
  have keys: "H ''x-error-message'' = Some (HString ''earlier'')"
    "H ''trace'' = Some (HString ''t1'')"
    "H ''x-original-channel'' = Some (HString ''orders'')"
    "H ''x-original-group'' = Some (HString ''billing'')"
    "H ''other'' = None"
    by (simp_all add: look own ch HEADER_ERROR_MESSAGE_def HEADER_ORIGINAL_CHANNEL_def
          HEADER_ORIGINAL_GROUP_def)
  from H [unfolded ch] keys show ?thesis by blast
qed

section \<open>Tracking of active messages\<close>







section \<open>Publishing against a full write buffer\<close>






text \<open>
  The buffer-full error, at a publish with a timeout of 3 ms on a buffer that never
  drains, is not an instance of the retryable error class, where C4 as stated asks for a
  retryable error.
\<close>

lemma saturated_simps:
  "stopping saturated_adapter = False" "connected saturated_adapter = True"
  "writeBufferReady saturated_adapter = False"
  by (simp_all add: saturated_adapter_def)



section \<open>The guards of publish\<close>

text \<open>
  C7. When the adapter is stopping, \<open>publish\<close> returns normally, makes no call (it
  neither serializes nor sends) and leaves the adapter as it is. Otherwise, when the
  adapter is not connected, it throws a retryable framework error, again without a call
  and without a change.
\<close>

theorem publish_guards:
  "(stopping a \<longrightarrow> publish ao serialize env a channelName payload opts = (Inr (), a, []))
   \<and> (\<not> stopping a \<longrightarrow> \<not> connected a
        \<longrightarrow> publish ao serialize env a channelName payload opts
              = (Inl not_connected_error, a, [])
            \<and> instanceof_MoleculerRetryableError not_connected_error)"
  by (simp add: publish_def not_connected_error_def instanceof_MoleculerRetryableError_def)

theorem publish_guards_witness:
  "publish default_opts identity_serializer never_drained
       (saturated_adapter\<lparr>stopping := True\<rparr>) ''orders'' ''{}'' plain_publish
     = (Inr (), saturated_adapter\<lparr>stopping := True\<rparr>, [])
   \<and> publish default_opts identity_serializer never_drained
       (saturated_adapter\<lparr>connected := False\<rparr>) ''orders'' ''{}'' plain_publish
     = (Inl not_connected_error, saturated_adapter\<lparr>connected := False\<rparr>, [])"
  using publish_guards [of "saturated_adapter\<lparr>stopping := True\<rparr>" default_opts
      identity_serializer never_drained "''orders''" "''{}''" plain_publish]
    publish_guards [of "saturated_adapter\<lparr>connected := False\<rparr>" default_opts
      identity_serializer never_drained "''orders''" "''{}''" plain_publish]
  by (simp add: saturated_simps)

section \<open>The topology that subscribe declares\<close>

text \<open>\<open>subscribe\<close> leaves the channel's name, group and id as they are.\<close>

lemma names_unchanged:
  "name (subscribed_channel ao chan) = name chan"
  "group (subscribed_channel ao chan) = group chan"
  "chan_id (subscribed_channel ao chan) = chan_id chan"
  by (simp_all add: subscribed_channel_def Let_def)

lemma queue_names_unchanged:
  "queueName_of (subscribed_channel ao chan) = queueName_of chan"
  "retryExchangeName (subscribed_channel ao chan) = retryExchangeName chan"
  "retryQueueName (subscribed_channel ao chan) = retryQueueName chan"
  by (simp_all add: queueName_of_def retryExchangeName_def retryQueueName_def names_unchanged)

text \<open>
  C5, as the code has it. For a channel subscribed with \<open>maxRetries > 0\<close> (its own, or
  the adapter's when it has none), the queue name is \<open>group.name\<close> when the group is a
  non-empty string and \<open>name\<close> otherwise, and the retry queue is named
  \<open><queueName>.retry\<close>. The retry exchange is named \<open><group>.retry\<close> when the group
  is a non-empty string and \<open><name>.retry\<close> otherwise. The main queue is declared with
  the retry exchange as dead-letter exchange and the retry queue's name as dead-letter
  routing key; the retry exchange is declared as a direct exchange, and the retry queue is
  declared and bound to it under its own name.
\<close>

theorem retry_topology:
  assumes "maxRetries_positive (fst (subscribe ao a chan))"
  shows "queueName_of chan =
           (case group chan of
              None \<Rightarrow> name chan
            | Some g \<Rightarrow> if g = [] then name chan else g @ ''.'' @ name chan)
       \<and> retryQueueName chan = queueName_of chan @ ''.retry''
       \<and> retryExchangeName chan =
           (case group chan of
              None \<Rightarrow> name chan @ ''.retry''
            | Some g \<Rightarrow> if g = [] then name chan @ ''.retry'' else g @ ''.retry'')
       \<and> AssertQueue (Some (queueName_of chan))
            ((quorum (merged_queueOptions ao chan))
               \<lparr>deadLetterExchange := Some (retryExchangeName chan),
                deadLetterRoutingKey := Some (retryQueueName chan)\<rparr>)
           \<in> set (snd (snd (subscribe ao a chan)))
       \<and> AssertExchange (retryExchangeName chan) ''direct'' \<in> set (snd (snd (subscribe ao a chan)))
       \<and> AssertQueue (Some (retryQueueName chan))
            ((quorum (merged_queueOptions ao chan))
               \<lparr>deadLetterExchange := Some (name chan),
                deadLetterRoutingKey := Some (queueName_of chan),
                messageTtl := Some (or_default (opt_retryInterval ao) 0)\<rparr>)
           \<in> set (snd (snd (subscribe ao a chan)))
       \<and> BindQueue (Some (retryQueueName chan)) (retryExchangeName chan) (retryQueueName chan)
           \<in> set (snd (snd (subscribe ao a chan)))"
proof -
  have pos: "maxRetries_positive (subscribed_channel ao chan)"
    using assms by (simp add: subscribe_def Let_def)
  have names: "queueName_of chan =
           (case group chan of
              None \<Rightarrow> name chan
            | Some g \<Rightarrow> if g = [] then name chan else g @ ''.'' @ name chan)"
    "retryQueueName chan = queueName_of chan @ ''.retry''"
    "retryExchangeName chan =
           (case group chan of
              None \<Rightarrow> name chan @ ''.retry''
            | Some g \<Rightarrow> if g = [] then name chan @ ''.retry'' else g @ ''.retry'')"
    by (simp_all add: queueName_of_def retryQueueName_def retryExchangeName_def truthy_def
          interpolate_def split: option.splits)
  have calls: "AssertQueue (Some (queueName_of chan))
            ((quorum (merged_queueOptions ao chan))
               \<lparr>deadLetterExchange := Some (retryExchangeName chan),
                deadLetterRoutingKey := Some (retryQueueName chan)\<rparr>)
           \<in> set (snd (snd (subscribe ao a chan)))"
    "AssertExchange (retryExchangeName chan) ''direct'' \<in> set (snd (snd (subscribe ao a chan)))"
    "AssertQueue (Some (retryQueueName chan))
            ((quorum (merged_queueOptions ao chan))
               \<lparr>deadLetterExchange := Some (name chan),
                deadLetterRoutingKey := Some (queueName_of chan),
                messageTtl := Some (or_default (opt_retryInterval ao) 0)\<rparr>)
           \<in> set (snd (snd (subscribe ao a chan)))"
    "BindQueue (Some (retryQueueName chan)) (retryExchangeName chan) (retryQueueName chan)
           \<in> set (snd (snd (subscribe ao a chan)))"
    using pos by (simp_all add: subscribe_def Let_def queue_names_unchanged names_unchanged)
  from names calls show ?thesis by (intro conjI)
qed

text \<open>
  For the channel \<open>orders\<close> of group \<open>billing\<close> the retry exchange that subscribe
  declares is \<open>billing.retry\<close>, while \<open><queueName>.retry\<close> is
  \<open>billing.orders.retry\<close>: the two names that C5 as stated takes to be equal differ.
\<close>

lemma failing_channel_names:
  "queueName_of (failing_channel n dl err) = ''billing.orders''"
  "retryExchangeName (failing_channel n dl err) = ''billing.retry''"
  "retryQueueName (failing_channel n dl err) = ''billing.orders.retry''"
  by (simp_all add: queueName_of_def retryExchangeName_def retryQueueName_def truthy_def
        interpolate_def failing_channel_def)

lemma failing_channel_subscribed:
  "0 < n \<Longrightarrow> maxRetries_positive (subscribed_channel ao (failing_channel (Some n) dl err))"
  by (simp add: subscribed_channel_def Let_def maxRetries_positive_def failing_channel_def)

theorem retry_topology_counterexample:
  "AssertExchange ''billing.retry'' ''direct''
     \<in> set (snd (snd (subscribe default_opts saturated_adapter
                         (failing_channel (Some 3) True plain_error))))
   \<and> queueName_of (failing_channel (Some 3) True plain_error) @ ''.retry''
       = ''billing.orders.retry''"
  using failing_channel_subscribed [of 3 default_opts True plain_error]
  by (simp add: subscribe_def Let_def queue_names_unchanged failing_channel_names)

theorem retry_topology_witness:
  "AssertQueue (Some ''billing.orders'')
            ((quorum (merged_queueOptions default_opts (failing_channel (Some 3) True plain_error)))
               \<lparr>deadLetterExchange := Some ''billing.retry'',
                deadLetterRoutingKey := Some ''billing.orders.retry''\<rparr>)
     \<in> set (snd (snd (subscribe default_opts saturated_adapter
                         (failing_channel (Some 3) True plain_error))))"
proof -
  have "maxRetries_positive (fst (subscribe default_opts saturated_adapter
          (failing_channel (Some 3) True plain_error)))"
    using failing_channel_subscribed [of 3 default_opts True plain_error]
    by (simp add: subscribe_def Let_def)
  from retry_topology [OF this] show ?thesis
    unfolding failing_channel_names by blast
qed

section \<open>The dead-letter exchange of a subscribed channel\<close>

lemma subscribed_exchangeName:
  assumes "dl_enabled (subscribed_channel ao chan)"
  shows "exchangeName (deadLettering (subscribed_channel ao chan)) =
           Some (prefix ao @
             (if truthy (exchangeName (merged_deadLettering ao chan))
              then interpolate (exchangeName (merged_deadLettering ao chan))
              else ''DEAD_LETTER''))"
  using assms
  by (auto simp: subscribed_channel_def Let_def dl_enabled_def addPrefixTopic_def truthy_def
        interpolate_def split: option.splits if_splits)

text \<open>
  C10. After \<open>subscribe\<close>, a channel with dead-lettering enabled has a dead-letter
  exchange name that is a non-empty string: the prefixed name that the channel or the
  adapter configured, or the prefixed \<open>DEAD_LETTER\<close> when neither configured one.
  \<open>subscribe\<close> declares that exchange, and every \<open>moveToDeadLetter\<close> for the channel
  publishes to it, so the publish with an empty exchange name does not occur.
\<close>

theorem dead_letter_exchange_named:
  assumes "dl_enabled (fst (subscribe ao a chan))"
  shows "\<exists>e. exchangeName (deadLettering (fst (subscribe ao a chan))) = Some e
           \<and> e \<noteq> []
           \<and> e = prefix ao @
                (if truthy (exchangeName (merged_deadLettering ao chan))
                 then interpolate (exchangeName (merged_deadLettering ao chan))
                 else ''DEAD_LETTER'')
           \<and> AssertExchange e ''fanout'' \<in> set (snd (snd (subscribe ao a chan)))
           \<and> (\<forall>msg err. moveToDeadLetter (fst (subscribe ao a chan)) msg err =
                 [Publish e (queueName (deadLettering (fst (subscribe ao a chan)))) (content msg)
                    (headers_only (provenance_headers (fst (subscribe ao a chan)) err
                                   ++ own_headers msg)),
                  MetricsIncrement METRIC_CHANNELS_MESSAGES_DEAD_LETTERING_TOTAL,
                  Ack (deliveryTag msg)])"
proof -
  let ?chan = "subscribed_channel ao chan"
  let ?e = "prefix ao @
                (if truthy (exchangeName (merged_deadLettering ao chan))
                 then interpolate (exchangeName (merged_deadLettering ao chan))
                 else ''DEAD_LETTER'')"
  have fst: "fst (subscribe ao a chan) = ?chan"
    by (simp add: subscribe_def Let_def)
  with assms have en: "dl_enabled ?chan" by simp
  note ex = subscribed_exchangeName [OF en]
  have ne: "?e \<noteq> []" by (auto simp: truthy_def interpolate_def split: option.splits)
  then have tr: "truthy (exchangeName (deadLettering ?chan))"
    unfolding ex by (simp add: truthy_def)
  have asserted: "AssertExchange ?e ''fanout'' \<in> set (snd (snd (subscribe ao a chan)))"
    using en tr by (simp add: subscribe_def Let_def ex interpolate_def)
  have "dl_exchange_or_empty ?chan = ?e"
    by (simp add: dl_exchange_or_empty_def ex)
  then have moves: "\<forall>msg err. moveToDeadLetter ?chan msg err =
                 [Publish ?e (queueName (deadLettering ?chan)) (content msg)
                    (headers_only (provenance_headers ?chan err ++ own_headers msg)),
                  MetricsIncrement METRIC_CHANNELS_MESSAGES_DEAD_LETTERING_TOTAL,
                  Ack (deliveryTag msg)]"
    by (simp add: moveToDeadLetter_def)
  show ?thesis
    unfolding fst using ex ne asserted moves by blast
qed

theorem dead_letter_exchange_named_witness:
  "exchangeName (deadLettering (fst (subscribe prefixed_opts saturated_adapter
      unnamed_exchange_channel))) = Some ''ns.DEAD_LETTER''"
proof -
  have m: "merged_deadLettering prefixed_opts unnamed_exchange_channel
      = \<lparr>enabled = Some True, queueName = Some ''FAILED_MESSAGES'', exchangeName = None\<rparr>"
    by (simp add: merged_deadLettering_def unnamed_exchange_channel_def prefixed_opts_def
          default_opts_def defaults_def)
  have "dl_enabled (fst (subscribe prefixed_opts saturated_adapter unnamed_exchange_channel))"
    by (simp add: subscribe_def Let_def subscribed_channel_def dl_enabled_def m)
  from dead_letter_exchange_named [OF this]
  have "exchangeName (deadLettering (fst (subscribe prefixed_opts saturated_adapter
      unnamed_exchange_channel))) =
     Some (prefix prefixed_opts @
                (if truthy (exchangeName (merged_deadLettering prefixed_opts
                                            unnamed_exchange_channel))
                 then interpolate (exchangeName (merged_deadLettering prefixed_opts
                                                   unnamed_exchange_channel))
                 else ''DEAD_LETTER''))"
    by blast
  moreover have "prefix prefixed_opts = ''ns.''"
    by (simp add: prefixed_opts_def)
  ultimately show ?thesis
    unfolding m by (simp add: truthy_def)
qed

end
